theory Spec2Isabelle
  imports Complex_Main "HOL-Library.AList"
begin

section \<open>Calibration decomposition: get\_calibration\_data.py\<close>

text \<open>
  The script reads, for every sensor of a calibration file, one 4x4 homogeneous transform,
  inverts it when its label is \<^verbatim>\<open>cTv\<close>, and decomposes it into a translation and three
  angles. The embedding follows \<^verbatim>\<open>scripts/transformation_matrix/get_calibration_data.py\<close>
  function by function.

  Numbers. The script computes in IEEE double precision. Here every number is a
  \<^typ>\<open>real\<close>: \<^verbatim>\<open>np.sqrt\<close> is \<^const>\<open>sqrt\<close>, \<^verbatim>\<open>**2\<close> is the square, and
  \<^verbatim>\<open>np.arctan2\<close> is the function \<open>arctan2\<close> below. Rounding, signed zeros, infinities
  and NaN are outside the embedding; every statement below is a statement of exact
  arithmetic.

  Arrays. A two-dimensional numpy array is the list of its rows, and a matrix of the file
  is a list of lists of numbers. The script never tests a shape: numpy slices, indexes and
  broadcasts whatever it is given, and raises where that cannot be done. The functions
  \<open>invert_T\<close>, \<open>rpy_from_R\<close> and \<open>xyz_rpy_from_T\<close> below give the values numpy computes
  on every matrix on which it does not raise; \<open>np_raises\<close> says on which matrices it
  raises, and \<open>get_info\<close> ends with the error \<open>ShapeError\<close> there.
\<close>

subsection \<open>The numpy operations the script uses\<close>

type_synonym ndarray = "real list list"

definition is_shape :: "nat \<Rightarrow> nat \<Rightarrow> ndarray \<Rightarrow> bool" where
  "is_shape n m A = (length A = n \<and> list_all (\<lambda>r. length r = m) A)"

abbreviation is_4x4 :: "ndarray \<Rightarrow> bool" where
  "is_4x4 \<equiv> is_shape 4 4"

abbreviation is_3x3 :: "ndarray \<Rightarrow> bool" where
  "is_3x3 \<equiv> is_shape 3 3"

text \<open>\<^verbatim>\<open>np.eye(n)\<close>.\<close>

definition eye :: "nat \<Rightarrow> ndarray" where
  "eye n = map (\<lambda>i. map (\<lambda>j. if i = j then 1 else 0) [0..<n]) [0..<n]"

text \<open>\<^verbatim>\<open>A[:3,:3]\<close> and \<^verbatim>\<open>A[:3, 3]\<close>.\<close>

definition block33 :: "ndarray \<Rightarrow> ndarray" where
  "block33 A = map (take 3) (take 3 A)"

definition col3 :: "ndarray \<Rightarrow> real list" where
  "col3 A = map (\<lambda>r. r ! 3) (take 3 A)"

text \<open>\<^verbatim>\<open>A.T\<close>, for a rectangular array with at least one row.\<close>

definition transpose_T :: "ndarray \<Rightarrow> ndarray" where
  "transpose_T A = map (\<lambda>j. map (\<lambda>r. r ! j) A) [0..<length (hd A)]"

text \<open>Unary minus on an array, \<^verbatim>\<open>A @ v\<close> for a vector and \<^verbatim>\<open>A @ B\<close> for a matrix.\<close>

definition neg :: "ndarray \<Rightarrow> ndarray" where
  "neg A = map (map uminus) A"

definition dot :: "real list \<Rightarrow> real list \<Rightarrow> real" where
  "dot u v = sum_list (map2 (*) u v)"

definition matvec :: "ndarray \<Rightarrow> real list \<Rightarrow> real list" where
  "matvec A v = map (\<lambda>r. dot r v) A"

definition matmul :: "ndarray \<Rightarrow> ndarray \<Rightarrow> ndarray" where
  "matmul A B = map (\<lambda>r. map (\<lambda>c. dot r c) (transpose_T B)) A"

text \<open>
  The slice assignments \<^verbatim>\<open>A[:3,:3] = B\<close> and \<^verbatim>\<open>A[:3, 3] = v\<close>. A value \<open>B\<close> of three rows
  with a single column is broadcast over the three columns, as numpy does.
\<close>

definition set_block33 :: "ndarray \<Rightarrow> ndarray \<Rightarrow> ndarray" where
  "set_block33 A B =
     map2 (\<lambda>r b. (if length b = 1 then [hd b, hd b, hd b] else b) @ drop 3 r) (take 3 A) B
     @ drop 3 A"

definition set_col3 :: "ndarray \<Rightarrow> real list \<Rightarrow> ndarray" where
  "set_col3 A v = map2 (\<lambda>r x. r[3 := x]) (take 3 A) v @ drop 3 A"

text \<open>
  \<^verbatim>\<open>np.arctan2(y, x)\<close>: the angle of the point \<open>(x, y)\<close>, in \<open>(-pi, pi]\<close>, and \<open>0\<close> at
  the origin.
\<close>

definition arctan2 :: "real \<Rightarrow> real \<Rightarrow> real" where
  "arctan2 y x =
     (if 0 < x then arctan (y / x)
      else if x < 0 then (if 0 \<le> y then arctan (y / x) + pi else arctan (y / x) - pi)
      else if 0 < y then pi / 2
      else if y < 0 then - (pi / 2)
      else 0)"

subsection \<open>The pose record\<close>

text \<open>
  The dictionary with the keys \<^verbatim>\<open>x, y, z, roll, pitch, yaw\<close>. The fields carry the prefix
  \<open>pose_\<close> so that the key names stay free for variables.
\<close>

record pose =
  pose_x :: real
  pose_y :: real
  pose_z :: real
  pose_roll :: real
  pose_pitch :: real
  pose_yaw :: real

definition get_empty_dict :: pose where
  "get_empty_dict =
     \<lparr>pose_x = 0, pose_y = 0, pose_z = 0, pose_roll = 0, pose_pitch = 0, pose_yaw = 0\<rparr>"

subsection \<open>invert\_T\<close>

definition invert_T :: "ndarray \<Rightarrow> ndarray" where
  "invert_T T =
     (let R = block33 T;
          t = col3 T;
          T_inv = eye 4;
          T_inv = set_block33 T_inv (transpose_T R);
          T_inv = set_col3 T_inv (matvec (neg (transpose_T R)) t)
      in T_inv)"

subsection \<open>rpy\_from\_R\<close>

text \<open>The result is the triple \<open>(roll, pitch, yaw)\<close>, in the order of the return statement.\<close>

definition rpy_from_R :: "ndarray \<Rightarrow> real \<times> real \<times> real" where
  "rpy_from_R R =
     (let cos_beta = sqrt ((R ! 0 ! 0)\<^sup>2 + (R ! 1 ! 0)\<^sup>2) in
      if cos_beta > 1 / 10 ^ 6 then
        (let yaw = arctan2 (R ! 2 ! 1) (R ! 2 ! 2);
             pitch = arctan2 (- (R ! 2 ! 0)) cos_beta;
             roll = arctan2 (R ! 1 ! 0) (R ! 0 ! 0)
         in (roll, pitch, yaw))
      else
        (let roll = arctan2 (- (R ! 1 ! 2)) (R ! 0 ! 2);
             pitch = arctan2 (- (R ! 2 ! 0)) cos_beta;
             yaw = 0
         in (roll, pitch, yaw)))"

subsection \<open>xyz\_rpy\_from\_T\<close>

definition xyz_rpy_from_T :: "ndarray \<Rightarrow> pose" where
  "xyz_rpy_from_T v_T_sensor =
     (let t = col3 v_T_sensor;
          R = block33 v_T_sensor;
          (r, p, y) = rpy_from_R R;
          data = get_empty_dict
      in data\<lparr>pose_x := t ! 0, pose_y := t ! 1, pose_z := t ! 2,
               pose_roll := r, pose_pitch := p, pose_yaw := y\<rparr>)"

subsection \<open>get\_info\<close>

text \<open>
  The loaded file is a dictionary in insertion order: an association list from each
  top-level key to its object. Of an object only the member \<^verbatim>\<open>extrinsics\<close> is read:
  \<open>None\<close> when the object has no such member, else the dictionary from direction label to
  matrix, again in insertion order. The value under \<^verbatim>\<open>state\<close> is never read.

  Errors: a missing \<^verbatim>\<open>extrinsics\<close> member raises \<^verbatim>\<open>KeyError\<close>, an empty
  \<^verbatim>\<open>extrinsics\<close> dictionary raises \<^verbatim>\<open>IndexError\<close> (element 0 of an empty list), and
  \<open>ShapeError\<close> stands for the exception numpy raises on a matrix it cannot slice, index
  or assign (an \<^verbatim>\<open>IndexError\<close> or a \<^verbatim>\<open>ValueError\<close> of numpy, not told apart here). An
  error ends the run before anything is written.

  The function returns the dictionary \<^verbatim>\<open>xyzrpy\<close> that the script then writes under the
  key \<^verbatim>\<open>Audi Q8\<close>; writing the file and printing are not modelled.
\<close>

datatype py_error = KeyError | IndexError | ShapeError

record sensor_entry =
  extrinsics :: "(string \<times> ndarray) list option"

type_synonym calibration = "(string \<times> sensor_entry) list"

type_synonym report = "(string \<times> pose) list"

text \<open>
  Where numpy raises in lines 137 to 141, for a matrix given as a list of rows.
  \<^item> \<^verbatim>\<open>np.array\<close> of no rows, or of rows of unequal length, is not a two-dimensional
    array: the conversion or the first two-dimensional index raises.
  \<^item> \<^verbatim>\<open>T[:3, 3]\<close> raises when there are fewer than four columns.
  \<^item> Without inversion, \<open>rpy_from_R\<close> reads the rows 0, 1 and 2 of the block and raises
    when there are fewer than three rows.
  \<^item> With inversion, \<^verbatim>\<open>T_inv[:3,:3] = R.T\<close> takes a value of three columns (three or more
    rows of \<open>T\<close>), broadcasts a value of one column (one row of \<open>T\<close>) and raises on a value
    of two columns (two rows of \<open>T\<close>); the result is 4x4 and its decomposition does not
    raise.
  Rows beyond the third and columns beyond the fourth are never read.
\<close>

definition np_raises :: "bool \<Rightarrow> ndarray \<Rightarrow> bool" where
  "np_raises inverted A =
     (A = [] \<or> \<not> list_all (\<lambda>r. length r = length (hd A)) A \<or> length (hd A) < 4 \<or>
      (if inverted then length A = 2 else length A < 3))"

text \<open>The body of the loop for one key other than \<^verbatim>\<open>state\<close>: the record name and the pose.\<close>

definition get_info_entry :: "string \<Rightarrow> sensor_entry \<Rightarrow> py_error + (string \<times> pose)" where
  "get_info_entry each_key entry =
     (case extrinsics entry of
        None \<Rightarrow> Inl KeyError
      | Some ext \<Rightarrow>
          (case ext of
             [] \<Rightarrow> Inl IndexError
           | (transform, M) # _ \<Rightarrow>
               (let (name, v_T_sensor) =
                      (if transform = ''cTv'' then (''vTc_'' @ each_key, True)
                       else (transform @ ''_'' @ each_key, False))
                in if np_raises v_T_sensor M then Inl ShapeError
                   else (let T = M;
                             T = (if v_T_sensor then invert_T T else T);
                             data = xyz_rpy_from_T T
                         in Inr (name, data)))))"

fun get_info_loop :: "calibration \<Rightarrow> report \<Rightarrow> py_error + report" where
  "get_info_loop [] xyzrpy = Inr xyzrpy"
| "get_info_loop ((each_key, entry) # rest) xyzrpy =
     (if each_key \<noteq> ''state'' then
        (case get_info_entry each_key entry of
           Inl e \<Rightarrow> Inl e
         | Inr (name, data) \<Rightarrow> get_info_loop rest (AList.update name data xyzrpy))
      else get_info_loop rest xyzrpy)"

definition get_info :: "calibration \<Rightarrow> py_error + report" where
  "get_info items = get_info_loop items []"

subsection \<open>invert\_T on a store of arrays\<close>

text \<open>
  numpy arrays are mutable and a slice is a view of the array it was taken from. To state
  what \<^verbatim>\<open>invert_T\<close> writes, the function is embedded a second time over a store of
  arrays: an address is a natural number, \<open>fresh\<close> is the next address to hand out, and
  every address the program holds is below it. \<^verbatim>\<open>R = T[:3,:3]\<close> and \<^verbatim>\<open>t = T[:3, 3]\<close>
  are views: they are read from the store at the moment they are used. An address that
  was never handed out reads as the empty array.
\<close>

record heap =
  cells :: "nat \<Rightarrow> ndarray option"
  fresh :: nat





subsection \<open>Notions of the specification\<close>

text \<open>
  Modelled from the spec: a valid rigid transform. The script has no such check; the
  specification (data model, section 3) asks for a 4x4 matrix whose rotation block is
  orthonormal with determinant 1, over the bottom row \<open>[0, 0, 0, 1]\<close>. Orthonormal is
  taken in both senses, rows and columns.
\<close>

definition det3 :: "ndarray \<Rightarrow> real" where
  "det3 R =
     R ! 0 ! 0 * (R ! 1 ! 1 * R ! 2 ! 2 - R ! 1 ! 2 * R ! 2 ! 1)
     - R ! 0 ! 1 * (R ! 1 ! 0 * R ! 2 ! 2 - R ! 1 ! 2 * R ! 2 ! 0)
     + R ! 0 ! 2 * (R ! 1 ! 0 * R ! 2 ! 1 - R ! 1 ! 1 * R ! 2 ! 0)"

definition orthonormal :: "ndarray \<Rightarrow> bool" where
  "orthonormal R =
     (matmul R (transpose_T R) = eye 3 \<and> matmul (transpose_T R) R = eye 3)"

definition rigid_transform :: "ndarray \<Rightarrow> bool" where
  "rigid_transform T =
     (is_4x4 T \<and> orthonormal (block33 T) \<and> det3 (block33 T) = 1 \<and> T ! 3 = [0, 0, 0, 1])"

text \<open>
  Modelled from the spec: the rotation matrix of a triple \<open>(roll, pitch, yaw)\<close> in the
  extrinsic X-Y-Z convention. The script only decomposes; the construction is the one the
  round-trip properties of the specification (section 8) speak of. Roll turns about the
  fixed X axis first, pitch about the fixed Y axis next, yaw about the fixed Z axis last,
  so the matrix is \<open>Rz yaw * Ry pitch * Rx roll\<close>.
\<close>

definition Rx :: "real \<Rightarrow> ndarray" where
  "Rx a = [[1, 0, 0], [0, cos a, - sin a], [0, sin a, cos a]]"

definition Ry :: "real \<Rightarrow> ndarray" where
  "Ry b = [[cos b, 0, sin b], [0, 1, 0], [- sin b, 0, cos b]]"

definition Rz :: "real \<Rightarrow> ndarray" where
  "Rz c = [[cos c, - sin c, 0], [sin c, cos c, 0], [0, 0, 1]]"

definition R_from_rpy :: "real \<Rightarrow> real \<Rightarrow> real \<Rightarrow> ndarray" where
  "R_from_rpy roll pitch yaw = matmul (Rz yaw) (matmul (Ry pitch) (Rx roll))"

text \<open>
  Modelled from the spec: a sensor extrinsics entry as the data model (section 3) and the
  input format (section 6) describe it. The script checks none of this. The entry has an
  \<^verbatim>\<open>extrinsics\<close> dictionary with exactly one key, that key is one of the two direction
  codes, and its value is a 4x4 array.
\<close>

definition valid_sensor_entry :: "sensor_entry \<Rightarrow> bool" where
  "valid_sensor_entry entry =
     (case extrinsics entry of
        None \<Rightarrow> False
      | Some ext \<Rightarrow>
          length ext = 1 \<and> (fst (hd ext) = ''cTv'' \<or> fst (hd ext) = ''vTc'') \<and>
          is_4x4 (snd (hd ext)))"

section \<open>Auxiliary facts\<close>

subsection \<open>Arrays of the two shapes\<close>

lemma upt_0_3: "[0..<3] = [0, 1, 2]"
  by (simp add: upt_rec)

lemma upt_0_4: "[0..<4] = [0, 1, 2, 3]"
  by (simp add: upt_rec)

lemma is_4x4_cases:
  assumes "is_4x4 T"
  obtains a b c d e f g h i j k l m n p q
  where "T = [[a, b, c, d], [e, f, g, h], [i, j, k, l], [m, n, p, q]]"
  using assms by (auto simp: is_shape_def length_Suc_conv eval_nat_numeral)

lemma eye_3: "eye 3 = [[1, 0, 0], [0, 1, 0], [0, 0, 1]]"
  by (simp add: eye_def upt_0_3)

lemma eye_4: "eye 4 = [[1, 0, 0, 0], [0, 1, 0, 0], [0, 0, 1, 0], [0, 0, 0, 1]]"
  by (simp add: eye_def upt_0_4)

lemma matmul_3x3:
  "matmul [[a, b, c], [d, e, f], [g, h, i]] [[a', b', c'], [d', e', f'], [g', h', i']] =
     [[a * a' + b * d' + c * g', a * b' + b * e' + c * h', a * c' + b * f' + c * i'],
      [d * a' + e * d' + f * g', d * b' + e * e' + f * h', d * c' + e * f' + f * i'],
      [g * a' + h * d' + i * g', g * b' + h * e' + i * h', g * c' + h * f' + i * i']]"
  by (simp add: matmul_def transpose_T_def dot_def upt_0_3)

lemma matmul_4x4:
  "matmul [[a, b, c, d], [e, f, g, h], [i, j, k, l], [m, n, p, q]]
          [[a', b', c', d'], [e', f', g', h'], [i', j', k', l'], [m', n', p', q']] =
     [[a * a' + b * e' + c * i' + d * m', a * b' + b * f' + c * j' + d * n',
       a * c' + b * g' + c * k' + d * p', a * d' + b * h' + c * l' + d * q'],
      [e * a' + f * e' + g * i' + h * m', e * b' + f * f' + g * j' + h * n',
       e * c' + f * g' + g * k' + h * p', e * d' + f * h' + g * l' + h * q'],
      [i * a' + j * e' + k * i' + l * m', i * b' + j * f' + k * j' + l * n',
       i * c' + j * g' + k * k' + l * p', i * d' + j * h' + k * l' + l * q'],
      [m * a' + n * e' + p * i' + q * m', m * b' + n * f' + p * j' + q * n',
       m * c' + n * g' + p * k' + q * p', m * d' + n * h' + p * l' + q * q']]"
  by (simp add: matmul_def transpose_T_def dot_def upt_0_4)

lemma invert_T_entries:
  "invert_T [[a, b, c, d], [e, f, g, h], [i, j, k, l], [m, n, p, q]] =
     [[a, e, i, - (a * d + e * h + i * l)],
      [b, f, j, - (b * d + f * h + j * l)],
      [c, g, k, - (c * d + g * h + k * l)],
      [0, 0, 0, 1]]"
  by (simp add: invert_T_def Let_def eye_4 block33_def col3_def transpose_T_def neg_def
      matvec_def dot_def set_block33_def set_col3_def upt_0_3)

lemma orthonormal_entries:
  "orthonormal [[a, b, c], [e, f, g], [i, j, k]] \<longleftrightarrow>
     (a * a + b * b + c * c = 1 \<and> a * e + b * f + c * g = 0 \<and> a * i + b * j + c * k = 0 \<and>
      e * e + f * f + g * g = 1 \<and> e * i + f * j + g * k = 0 \<and> i * i + j * j + k * k = 1) \<and>
     (a * a + e * e + i * i = 1 \<and> a * b + e * f + i * j = 0 \<and> a * c + e * g + i * k = 0 \<and>
      b * b + f * f + j * j = 1 \<and> b * c + f * g + j * k = 0 \<and> c * c + g * g + k * k = 1)"
  by (auto simp: orthonormal_def matmul_3x3 eye_3 transpose_T_def upt_0_3 mult.commute)

lemma R_from_rpy_entries:
  "R_from_rpy r p y =
     [[cos y * cos p, cos y * sin p * sin r - sin y * cos r, cos y * sin p * cos r + sin y * sin r],
      [sin y * cos p, sin y * sin p * sin r + cos y * cos r, sin y * sin p * cos r - cos y * sin r],
      [- sin p, cos p * sin r, cos p * cos r]]"
  by (simp add: R_from_rpy_def Rx_def Ry_def Rz_def matmul_3x3 algebra_simps)

subsection \<open>The angle function\<close>

lemma arctan2_polar:
  assumes r: "0 < r" and lo: "- pi < t" and hi: "t \<le> pi"
  shows "arctan2 (r * sin t) (r * cos t) = t"
proof -
  have rn: "r \<noteq> 0" using r by simp
  consider (a) "t < - (pi / 2)" | (b) "t = - (pi / 2)" | (c) "- (pi / 2) < t" "t < pi / 2"
    | (d) "t = pi / 2" | (e) "pi / 2 < t"
    by linarith
  then show ?thesis
  proof cases
    case a
    define p where "p = t + pi"
    have p: "0 < p" "p < pi / 2" using a lo by (simp_all add: p_def)
    have t: "t = p - pi" by (simp add: p_def)
    have c: "cos t = - cos p" and s: "sin t = - sin p" by (simp_all add: t)
    have cp: "0 < cos p" using p by (simp add: cos_gt_zero)
    have sp: "0 < sin p" using p by (simp add: sin_gt_zero2)
    have x: "r * cos t < 0" using mult_pos_pos [OF r cp] by (simp add: c)
    have y: "\<not> 0 \<le> r * sin t" using mult_pos_pos [OF r sp] by (simp add: s)
    have q: "(r * sin t) / (r * cos t) = tan p" using rn by (simp add: tan_def c s)
    have "arctan2 (r * sin t) (r * cos t) = arctan ((r * sin t) / (r * cos t)) - pi"
      using x y by (simp add: arctan2_def)
    also have "\<dots> = arctan (tan p) - pi" by (simp only: q)
    also have "\<dots> = t" using p by (simp add: arctan_tan t)
    finally show ?thesis .
  next
    case b
    have "arctan2 (r * sin (- (pi / 2))) (r * cos (- (pi / 2))) = - (pi / 2)"
      using r by (simp add: arctan2_def)
    then show ?thesis by (simp only: b)
  next
    case c
    then have "0 < cos t" by (simp add: cos_gt_zero_pi)
    then have x: "0 < r * cos t" using r by simp
    have q: "(r * sin t) / (r * cos t) = tan t" using rn by (simp add: tan_def)
    have "arctan2 (r * sin t) (r * cos t) = arctan ((r * sin t) / (r * cos t))"
      using x by (simp add: arctan2_def)
    also have "\<dots> = arctan (tan t)" by (simp only: q)
    also have "\<dots> = t" using c by (simp add: arctan_tan)
    finally show ?thesis .
  next
    case d
    have "arctan2 (r * sin (pi / 2)) (r * cos (pi / 2)) = pi / 2"
      using r by (simp add: arctan2_def)
    then show ?thesis by (simp only: d)
  next
    case e
    define p where "p = t - pi"
    have p: "- (pi / 2) < p" "p \<le> 0" using e hi by (simp_all add: p_def)
    have t: "t = p + pi" by (simp add: p_def)
    have c: "cos t = - cos p" and s: "sin t = - sin p" by (simp_all add: t)
    have cp: "0 < cos p" using p by (simp add: cos_gt_zero_pi)
    have "0 \<le> sin (- p)" using p by (intro sin_ge_zero) simp_all
    then have sp: "sin p \<le> 0" by simp
    have x: "r * cos t < 0" using mult_pos_pos [OF r cp] by (simp add: c)
    have y: "0 \<le> r * sin t" using r sp by (simp add: s mult_nonneg_nonpos)
    have q: "(r * sin t) / (r * cos t) = tan p" using rn by (simp add: tan_def c s)
    have "arctan2 (r * sin t) (r * cos t) = arctan ((r * sin t) / (r * cos t)) + pi"
      using x y by (simp add: arctan2_def)
    also have "\<dots> = arctan (tan p) + pi" by (simp only: q)
    also have "\<dots> = t" using p by (simp add: arctan_tan t)
    finally show ?thesis .
  qed
qed

lemma arctan2_range_nonneg:
  assumes "0 \<le> x"
  shows "- (pi / 2) \<le> arctan2 y x \<and> arctan2 y x \<le> pi / 2"
proof (cases "0 < x")
  case True
  then show ?thesis
    using arctan_lbound [of "y / x"] arctan_ubound [of "y / x"] by (simp add: arctan2_def)
next
  case False
  then have "x = 0" using assms by simp
  then show ?thesis by (simp add: arctan2_def)
qed

text \<open>At 89 degrees the cosine is still far above the threshold of the decomposer.\<close>

lemma sin_half_bound:
  assumes "0 \<le> x" "x \<le> pi / 2"
  shows "sin (2 * x) / 2 \<le> sin x"
proof -
  have "0 \<le> sin x" using assms by (intro sin_ge_zero) simp_all
  moreover have "cos x \<le> 1" by simp
  ultimately have "sin x * cos x \<le> sin x * 1" by (intro mult_left_mono) simp_all
  then show ?thesis by (simp add: sin_double)
qed

lemma sin_pi_256: "1 / 128 \<le> sin (pi / 256)"
proof -
  have "sin (pi / 2) / 2 \<le> sin (pi / 4)" using sin_half_bound [of "pi / 4"] by simp
  moreover have "sin (pi / 4) / 2 \<le> sin (pi / 8)" using sin_half_bound [of "pi / 8"] by simp
  moreover have "sin (pi / 8) / 2 \<le> sin (pi / 16)" using sin_half_bound [of "pi / 16"] by simp
  moreover have "sin (pi / 16) / 2 \<le> sin (pi / 32)" using sin_half_bound [of "pi / 32"] by simp
  moreover have "sin (pi / 32) / 2 \<le> sin (pi / 64)" using sin_half_bound [of "pi / 64"] by simp
  moreover have "sin (pi / 64) / 2 \<le> sin (pi / 128)" using sin_half_bound [of "pi / 128"] by simp
  moreover have "sin (pi / 128) / 2 \<le> sin (pi / 256)" using sin_half_bound [of "pi / 256"] by simp
  ultimately show ?thesis by simp
qed

lemma cos_89_degrees: "1 / 128 \<le> cos (89 * pi / 180)"
proof -
  have "cos (89 * pi / 180) = sin (pi / 180)"
    by (simp add: cos_sin_eq field_simps)
  moreover have "sin (pi / 256) \<le> sin (pi / 180)"
    by (intro sin_monotone_2pi_le) (simp_all add: field_simps)
  ultimately show ?thesis using sin_pi_256 by simp
qed

lemma cos_away_from_gimbal:
  assumes "\<bar>b\<bar> < 89 * pi / 180"
  shows "1 / 10 ^ 6 < cos b"
proof -
  have "cos (89 * pi / 180) \<le> cos \<bar>b\<bar>"
    using assms by (intro cos_monotone_0_pi_le) (simp_all add: field_simps)
  then have "1 / 128 \<le> cos b" using cos_89_degrees by simp
  then show ?thesis by simp
qed

subsection \<open>Decomposing a constructed rotation\<close>

text \<open>
  Away from the singularity the decomposer returns the angle about Z as its roll and the
  angle about X as its yaw. At a pitch of exactly a quarter turn it returns the difference
  of the angles about X and about Z as its roll.
\<close>

lemma rpy_from_R_regular_swapped:
  assumes r: "- pi < r" "r \<le> pi" and p: "\<bar>p\<bar> < 89 * pi / 180" and y: "- pi < y" "y \<le> pi"
  shows "rpy_from_R (R_from_rpy r p y) = (y, p, r)"
proof -
  have cp: "1 / 10 ^ 6 < cos p" using p by (rule cos_away_from_gimbal)
  then have cp0: "0 < cos p" by simp
  have "(cos y * cos p)\<^sup>2 + (sin y * cos p)\<^sup>2 = ((sin y)\<^sup>2 + (cos y)\<^sup>2) * (cos p)\<^sup>2"
    by (simp only: power_mult_distrib distrib_right add.commute)
  also have "\<dots> = (cos p)\<^sup>2"
    by simp
  finally have "sqrt ((cos y * cos p)\<^sup>2 + (sin y * cos p)\<^sup>2) = cos p"
    using cp0 by simp
  then have cb: "sqrt ((R_from_rpy r p y ! 0 ! 0)\<^sup>2 + (R_from_rpy r p y ! 1 ! 0)\<^sup>2) = cos p"
    by (simp add: R_from_rpy_entries)
  have pr: "- pi < p" "p \<le> pi" using p pi_gt_zero by (simp_all add: abs_less_iff field_simps)
  have roll: "arctan2 (R_from_rpy r p y ! 1 ! 0) (R_from_rpy r p y ! 0 ! 0) = y"
    using arctan2_polar [OF cp0 y] by (simp add: R_from_rpy_entries mult.commute)
  have pitch: "arctan2 (- (R_from_rpy r p y ! 2 ! 0)) (cos p) = p"
    using arctan2_polar [of 1 p] pr by (simp add: R_from_rpy_entries)
  have yaw: "arctan2 (R_from_rpy r p y ! 2 ! 1) (R_from_rpy r p y ! 2 ! 2) = r"
    using arctan2_polar [OF cp0 r] by (simp add: R_from_rpy_entries)
  show ?thesis
    unfolding rpy_from_R_def Let_def cb using cp roll pitch yaw by simp
qed

lemma rpy_from_R_gimbal_plus:
  assumes "- pi < r - y" "r - y \<le> pi"
  shows "rpy_from_R (R_from_rpy r (pi / 2) y) = (r - y, pi / 2, 0)"
proof -
  have cb: "sqrt ((R_from_rpy r (pi / 2) y ! 0 ! 0)\<^sup>2 + (R_from_rpy r (pi / 2) y ! 1 ! 0)\<^sup>2) = 0"
    by (simp add: R_from_rpy_entries)
  have "arctan2 (sin (r - y)) (cos (r - y)) = r - y"
    using arctan2_polar [of 1 "r - y"] assms by simp
  then have roll: "arctan2 (- (R_from_rpy r (pi / 2) y ! 1 ! 2)) (R_from_rpy r (pi / 2) y ! 0 ! 2) = r - y"
    by (simp add: R_from_rpy_entries sin_diff cos_diff algebra_simps)
  have pitch: "arctan2 (- (R_from_rpy r (pi / 2) y ! 2 ! 0)) 0 = pi / 2"
    by (simp add: R_from_rpy_entries arctan2_def)
  show ?thesis
    unfolding rpy_from_R_def Let_def cb using roll pitch by simp
qed

subsection \<open>The loop of get\_info\<close>

lemma np_raises_4x4:
  assumes "is_4x4 M"
  shows "\<not> np_raises inverted M"
proof -
  from assms obtain a b c d e f g h i j k l m n p q
    where "M = [[a, b, c, d], [e, f, g, h], [i, j, k, l], [m, n, p, q]]"
    by (rule is_4x4_cases)
  then show ?thesis by (simp add: np_raises_def)
qed

text \<open>
  Matrices of other shapes: three rows of four numbers are decomposed as they are, rows
  and columns beyond a 4x4 matrix are ignored, and two rows under \<^verbatim>\<open>cTv\<close> end the run.
\<close>

lemma get_info_other_shapes:
  "get_info [(''a'', \<lparr>extrinsics = Some [(''vTc'',
       [[1, 0, 0, 4], [0, 1, 0, 5], [0, 0, 1, 6]])]\<rparr>)] =
     Inr [(''vTc_a'',
       \<lparr>pose_x = 4, pose_y = 5, pose_z = 6, pose_roll = 0, pose_pitch = 0, pose_yaw = 0\<rparr>)]"
  "get_info [(''a'', \<lparr>extrinsics = Some [(''vTc'',
       [[1, 0, 0, 4, 9], [0, 1, 0, 5, 9], [0, 0, 1, 6, 9], [7, 7, 7, 7, 7], [8, 8, 8, 8, 8]])]\<rparr>)] =
     Inr [(''vTc_a'',
       \<lparr>pose_x = 4, pose_y = 5, pose_z = 6, pose_roll = 0, pose_pitch = 0, pose_yaw = 0\<rparr>)]"
  "get_info [(''a'', \<lparr>extrinsics = Some [(''cTv'',
       [[1, 0, 0, 4], [0, 1, 0, 5]])]\<rparr>)] = Inl ShapeError"
  by (simp_all add: get_info_def get_info_entry_def np_raises_def xyz_rpy_from_T_def
      rpy_from_R_def block33_def col3_def arctan2_def get_empty_dict_def)

lemma get_info_entry_first:
  assumes "extrinsics entry = Some ((label, M) # others)" "is_4x4 M"
  shows "get_info_entry each_key entry =
           Inr (if label = ''cTv'' then ''vTc_'' @ each_key else label @ ''_'' @ each_key,
                xyz_rpy_from_T (if label = ''cTv'' then invert_T M else M))"
  using assms by (simp add: get_info_entry_def np_raises_4x4)

lemma get_info_entry_valid:
  assumes "valid_sensor_entry entry"
  shows "\<exists>data. get_info_entry each_key entry = Inr (''vTc_'' @ each_key, data)"
proof -
  from assms obtain ext where ext: "extrinsics entry = Some ext" and len: "length ext = 1"
    and l: "fst (hd ext) = ''cTv'' \<or> fst (hd ext) = ''vTc''" and M: "is_4x4 (snd (hd ext))"
    by (auto simp: valid_sensor_entry_def split: option.splits)
  from len obtain item where "ext = [item]"
    by (auto simp: length_Suc_conv)
  then have e: "extrinsics entry = Some ((fst (hd ext), snd (hd ext)) # [])"
    by (simp add: ext)
  from l show ?thesis
    by (auto simp: get_info_entry_first [OF e M])
qed

lemma update_new_key:
  "name \<notin> fst ` set xyzrpy \<Longrightarrow> AList.update name data xyzrpy = xyzrpy @ [(name, data)]"
  by (induction xyzrpy) auto

lemma get_info_loop_names:
  assumes "distinct (map fst items)"
    and "\<And>k e. (k, e) \<in> set items \<Longrightarrow> k \<noteq> ''state'' \<Longrightarrow>
           \<exists>data. get_info_entry k e = Inr (nm k, data)"
    and "inj nm"
    and "\<And>k. k \<in> fst ` set items \<Longrightarrow> nm k \<notin> fst ` set xyzrpy"
  shows "\<exists>out. get_info_loop items xyzrpy = Inr out \<and>
           map fst out = map fst xyzrpy @ map nm (filter (\<lambda>k. k \<noteq> ''state'') (map fst items))"
  using assms(1,2,4)
proof (induction items arbitrary: xyzrpy)
  case Nil
  then show ?case by simp
next
  case (Cons item items)
  obtain k e where item: "item = (k, e)" by (cases item)
  from Cons.prems(1) have dist: "distinct (map fst items)" and knew: "k \<notin> fst ` set items"
    by (simp_all add: item)
  have entries: "\<And>k e. (k, e) \<in> set items \<Longrightarrow> k \<noteq> ''state'' \<Longrightarrow>
           \<exists>data. get_info_entry k e = Inr (nm k, data)"
    using Cons.prems(2) by simp
  show ?case
  proof (cases "k = ''state''")
    case True
    have "\<exists>out. get_info_loop items xyzrpy = Inr out \<and>
           map fst out = map fst xyzrpy @ map nm (filter (\<lambda>k. k \<noteq> ''state'') (map fst items))"
      using dist entries Cons.prems(3) by (intro Cons.IH) simp_all
    then show ?thesis by (simp add: item True)
  next
    case False
    obtain data where entry: "get_info_entry k e = Inr (nm k, data)"
      using Cons.prems(2) [of k e] False by (auto simp: item)
    have fresh: "nm k \<notin> fst ` set xyzrpy"
      using Cons.prems(3) [of k] by (simp add: item)
    let ?acc = "xyzrpy @ [(nm k, data)]"
    have "\<exists>out. get_info_loop items ?acc = Inr out \<and>
           map fst out = map fst ?acc @ map nm (filter (\<lambda>k. k \<noteq> ''state'') (map fst items))"
    proof (intro Cons.IH dist entries)
      fix k' assume k': "k' \<in> fst ` set items"
      then have "k' \<noteq> k" using knew by auto
      then have "nm k' \<noteq> nm k" using \<open>inj nm\<close> by (auto dest: injD)
      moreover have "nm k' \<notin> fst ` set xyzrpy"
        using Cons.prems(3) [of k'] k' by (simp add: item)
      ultimately show "nm k' \<notin> fst ` set ?acc" by simp
    qed simp_all
    then show ?thesis by (simp add: item False entry update_new_key [OF fresh])
  qed
qed

text \<open>
  A run over a list of keys is the run over a first part followed by the run over the
  rest, and a record once stored stays as it is unless a later key is stored under the
  same name.
\<close>

lemma get_info_loop_append:
  "get_info_loop (xs @ ys) xyzrpy =
     (case get_info_loop xs xyzrpy of Inl e \<Rightarrow> Inl e | Inr acc \<Rightarrow> get_info_loop ys acc)"
proof (induction xs arbitrary: xyzrpy)
  case Nil
  then show ?case by simp
next
  case (Cons item xs)
  obtain k e where item: "item = (k, e)" by (cases item)
  show ?case
    by (simp add: item Cons.IH split: sum.splits prod.splits)
qed

lemma get_info_loop_keeps:
  assumes "get_info_loop ys xyzrpy = Inr out"
    and "map_of xyzrpy name = Some data"
    and "list_all (\<lambda>(k, e). k = ''state'' \<or> (\<forall>d. get_info_entry k e \<noteq> Inr (name, d))) ys"
  shows "map_of out name = Some data"
  using assms
proof (induction ys arbitrary: xyzrpy)
  case Nil
  then show ?case by simp
next
  case (Cons item ys)
  obtain k e where item: "item = (k, e)" by (cases item)
  from Cons.prems(3) have rest: "list_all (\<lambda>(k, e). k = ''state'' \<or> (\<forall>d. get_info_entry k e \<noteq> Inr (name, d))) ys"
    by simp
  show ?case
  proof (cases "k = ''state''")
    case True
    with Cons.prems(1) have "get_info_loop ys xyzrpy = Inr out" by (simp add: item)
    then show ?thesis using Cons.prems(2) rest by (rule Cons.IH)
  next
    case False
    with Cons.prems(1) obtain n d where entry: "get_info_entry k e = Inr (n, d)"
      and run: "get_info_loop ys (AList.update n d xyzrpy) = Inr out"
      by (auto simp: item split: sum.splits)
    from Cons.prems(3) False entry have "n \<noteq> name" by (auto simp: item)
    then have "map_of (AList.update n d xyzrpy) name = Some data"
      using Cons.prems(2) by (simp add: update_conv')
    with run show ?thesis using rest by (rule Cons.IH)
  qed
qed

lemma get_info_stores:
  assumes key: "key \<noteq> ''state''"
    and entry: "get_info_entry key entry = Inr (name, data)"
    and run: "get_info (before @ (key, entry) # after) = Inr out"
    and later: "list_all (\<lambda>(k, e). k = ''state'' \<or> (\<forall>d. get_info_entry k e \<noteq> Inr (name, d))) after"
  shows "map_of out name = Some data"
proof -
  from run obtain acc where "get_info_loop before [] = Inr acc"
    and "get_info_loop ((key, entry) # after) acc = Inr out"
    by (auto simp: get_info_def get_info_loop_append split: sum.splits)
  then have rest: "get_info_loop after (AList.update name data acc) = Inr out"
    using key entry by simp
  have "map_of (AList.update name data acc) name = Some data"
    by (simp add: update_conv')
  with rest show ?thesis using later by (rule get_info_loop_keeps)
qed

lemma get_info_valid_runs:
  assumes "distinct (map fst items)"
    and "list_all (\<lambda>(k, e). k = ''state'' \<or> valid_sensor_entry e) items"
  shows "\<exists>out. get_info items = Inr out"
proof -
  have entries: "\<exists>data. get_info_entry k e = Inr (''vTc_'' @ k, data)"
    if "(k, e) \<in> set items" "k \<noteq> ''state''" for k e
  proof -
    from assms(2) that have "valid_sensor_entry e"
      by (auto simp: list_all_iff)
    then show ?thesis by (rule get_info_entry_valid)
  qed
  have "\<exists>out. get_info_loop items [] = Inr out \<and>
           map fst out = map fst ([] :: report) @
             map ((@) ''vTc_'') (filter (\<lambda>k. k \<noteq> ''state'') (map fst items))"
    by (rule get_info_loop_names [OF assms(1)]) (use entries in \<open>simp_all add: inj_on_def\<close>)
  then show ?thesis by (auto simp: get_info_def)
qed

lemma get_info_valid_stores:
  assumes dist: "distinct (map fst items)"
    and valid: "list_all (\<lambda>(k, e). k = ''state'' \<or> valid_sensor_entry e) items"
    and run: "get_info items = Inr out"
    and mem: "(key, entry) \<in> set items"
    and key: "key \<noteq> ''state''"
    and ext: "extrinsics entry = Some [(label, T)]"
  shows "map_of out (if label = ''cTv'' then ''vTc_'' @ key else label @ ''_'' @ key) =
           Some (xyz_rpy_from_T (if label = ''cTv'' then invert_T T else T))"
proof -
  from mem obtain before after where items: "items = before @ (key, entry) # after"
    by (auto dest: split_list)
  from valid mem key have "valid_sensor_entry entry"
    by (auto simp: list_all_iff)
  then have label: "label = ''cTv'' \<or> label = ''vTc''" and T: "is_4x4 T"
    by (simp_all add: valid_sensor_entry_def ext)
  have name: "(if label = ''cTv'' then ''vTc_'' @ key else label @ ''_'' @ key) = ''vTc_'' @ key"
    using label by auto
  have entry: "get_info_entry key entry =
       Inr (''vTc_'' @ key, xyz_rpy_from_T (if label = ''cTv'' then invert_T T else T))"
    using get_info_entry_first [OF ext T, of key] by (simp only: name)
  have later: "list_all (\<lambda>(k, e). k = ''state'' \<or>
                 (\<forall>d. get_info_entry k e \<noteq> Inr (''vTc_'' @ key, d))) after"
    unfolding list_all_iff
  proof (intro ballI, clarify)
    fix k e d
    assume ke: "(k, e) \<in> set after" and k: "k \<noteq> ''state''"
      and same: "get_info_entry k e = Inr (''vTc_'' @ key, d)"
    from dist have "key \<notin> fst ` set after" by (simp add: items)
    with ke have "k \<noteq> key" by force
    moreover from valid ke k have "valid_sensor_entry e"
      by (auto simp: list_all_iff items)
    then obtain d' where "get_info_entry k e = Inr (''vTc_'' @ k, d')"
      using get_info_entry_valid by blast
    ultimately show False using same by simp
  qed
  have "map_of out (''vTc_'' @ key) =
          Some (xyz_rpy_from_T (if label = ''cTv'' then invert_T T else T))"
    using key entry run [unfolded items] later by (rule get_info_stores)
  then show ?thesis by (simp only: name)
qed

lemma get_info_vTc_cam0:
  "get_info [(''cam0'', \<lparr>extrinsics = Some [(''vTc'',
       [[1, 0, 0, 1], [0, 1, 0, 2], [0, 0, 1, 3], [0, 0, 0, 1]])]\<rparr>)] =
     Inr [(''vTc_cam0'',
       \<lparr>pose_x = 1, pose_y = 2, pose_z = 3, pose_roll = 0, pose_pitch = 0, pose_yaw = 0\<rparr>)]"
  by (simp add: get_info_def get_info_entry_def np_raises_def xyz_rpy_from_T_def rpy_from_R_def
      block33_def col3_def arctan2_def get_empty_dict_def)

section \<open>The claims\<close>

subsection \<open>C1: direction handling and the end-to-end example\<close>

text \<open>
  Claim C1, as the specification states it, fails on the script. The example input has the
  single sensor \<^verbatim>\<open>cam0\<close> with the label \<^verbatim>\<open>vTc\<close>; the script inverts only under the
  label \<^verbatim>\<open>cTv\<close>, so the record \<^verbatim>\<open>vTc_cam0\<close> holds the translation \<open>(1, 2, 3)\<close> as it
  stands in the file, not \<open>(-1, -2, -3)\<close>.
\<close>

theorem get_info_vTc_cam0_not_inverted:
  "get_info [(''cam0'', \<lparr>extrinsics = Some [(''vTc'',
       [[1, 0, 0, 1], [0, 1, 0, 2], [0, 0, 1, 3], [0, 0, 0, 1]])]\<rparr>)] \<noteq>
     Inr [(''vTc_cam0'',
       \<lparr>pose_x = - 1, pose_y = - 2, pose_z = - 3, pose_roll = 0, pose_pitch = 0, pose_yaw = 0\<rparr>)]"
  by (simp add: get_info_vTc_cam0)

text \<open>
  Claim C1, amended. The label that is inverted is \<^verbatim>\<open>cTv\<close>, and no other. For every
  input and every key of it other than \<^verbatim>\<open>state\<close> whose \<^verbatim>\<open>extrinsics\<close> dictionary holds
  the sole label \<open>label\<close> and a 4x4 matrix \<open>T\<close>: when the run completes and no later key is
  stored under the same record name, the output holds under \<^verbatim>\<open>vTc_<key>\<close> the pose
  \<open>xyz_rpy_from_T (invert_T T)\<close> if the label is \<^verbatim>\<open>cTv\<close>, and under \<^verbatim>\<open><label>_<key>\<close>
  the pose \<open>xyz_rpy_from_T T\<close> if it is any other label. For every input of distinct keys
  whose entries, the one under \<^verbatim>\<open>state\<close> apart, are valid sensor entries, the run does
  complete and this holds of every sensor. An input of that one key alone gives that one
  record, whatever the label. For the example input the record
  \<^verbatim>\<open>vTc_cam0\<close> has \<open>x = 1, y = 2, z = 3\<close> and all three angles \<open>0\<close>.
\<close>

theorem get_info_direction:
  "(key \<noteq> ''state'' \<and> is_4x4 T \<and>
    get_info (before @ (key, \<lparr>extrinsics = Some [(label, T)]\<rparr>) # after) = Inr out \<and>
    list_all (\<lambda>(k, e). k = ''state'' \<or>
       (\<forall>d. get_info_entry k e \<noteq>
          Inr (if label = ''cTv'' then ''vTc_'' @ key else label @ ''_'' @ key, d))) after \<longrightarrow>
      map_of out (if label = ''cTv'' then ''vTc_'' @ key else label @ ''_'' @ key) =
        Some (xyz_rpy_from_T (if label = ''cTv'' then invert_T T else T))) \<and>
   (distinct (map fst items) \<and>
    list_all (\<lambda>(k, e). k = ''state'' \<or> valid_sensor_entry e) items \<longrightarrow>
      (\<exists>res. get_info items = Inr res \<and>
         (\<forall>(k, e) \<in> set items. \<forall>l M. k \<noteq> ''state'' \<and> extrinsics e = Some [(l, M)] \<longrightarrow>
            map_of res (if l = ''cTv'' then ''vTc_'' @ k else l @ ''_'' @ k) =
              Some (xyz_rpy_from_T (if l = ''cTv'' then invert_T M else M))))) \<and>
   (key \<noteq> ''state'' \<and> is_4x4 T \<longrightarrow>
      get_info [(key, \<lparr>extrinsics = Some [(label, T)]\<rparr>)] =
        Inr [(if label = ''cTv'' then ''vTc_'' @ key else label @ ''_'' @ key,
              xyz_rpy_from_T (if label = ''cTv'' then invert_T T else T))]) \<and>
   get_info [(''cam0'', \<lparr>extrinsics = Some [(''vTc'',
       [[1, 0, 0, 1], [0, 1, 0, 2], [0, 0, 1, 3], [0, 0, 0, 1]])]\<rparr>)] =
     Inr [(''vTc_cam0'',
       \<lparr>pose_x = 1, pose_y = 2, pose_z = 3, pose_roll = 0, pose_pitch = 0, pose_yaw = 0\<rparr>)]"
proof (intro conjI impI)
  assume h: "key \<noteq> ''state'' \<and> is_4x4 T \<and>
    get_info (before @ (key, \<lparr>extrinsics = Some [(label, T)]\<rparr>) # after) = Inr out \<and>
    list_all (\<lambda>(k, e). k = ''state'' \<or>
       (\<forall>d. get_info_entry k e \<noteq>
          Inr (if label = ''cTv'' then ''vTc_'' @ key else label @ ''_'' @ key, d))) after"
  have "get_info_entry key \<lparr>extrinsics = Some [(label, T)]\<rparr> =
          Inr (if label = ''cTv'' then ''vTc_'' @ key else label @ ''_'' @ key,
               xyz_rpy_from_T (if label = ''cTv'' then invert_T T else T))"
    using h by (intro get_info_entry_first [of _ label T "[]"]) simp_all
  with h show "map_of out (if label = ''cTv'' then ''vTc_'' @ key else label @ ''_'' @ key) =
        Some (xyz_rpy_from_T (if label = ''cTv'' then invert_T T else T))"
    by (intro get_info_stores [of key _ _ _ before after]) blast+
next
  assume v: "distinct (map fst items) \<and>
    list_all (\<lambda>(k, e). k = ''state'' \<or> valid_sensor_entry e) items"
  then obtain res where res: "get_info items = Inr res"
    using get_info_valid_runs by blast
  have "map_of res (if l = ''cTv'' then ''vTc_'' @ k else l @ ''_'' @ k) =
              Some (xyz_rpy_from_T (if l = ''cTv'' then invert_T M else M))"
    if "(k, e) \<in> set items" "k \<noteq> ''state''" "extrinsics e = Some [(l, M)]" for k e l M
    using v res that by (intro get_info_valid_stores [of items res k e]) simp_all
  with res show "\<exists>res. get_info items = Inr res \<and>
         (\<forall>(k, e) \<in> set items. \<forall>l M. k \<noteq> ''state'' \<and> extrinsics e = Some [(l, M)] \<longrightarrow>
            map_of res (if l = ''cTv'' then ''vTc_'' @ k else l @ ''_'' @ k) =
              Some (xyz_rpy_from_T (if l = ''cTv'' then invert_T M else M)))"
    by blast
next
  assume "key \<noteq> ''state'' \<and> is_4x4 T"
  then show "get_info [(key, \<lparr>extrinsics = Some [(label, T)]\<rparr>)] =
        Inr [(if label = ''cTv'' then ''vTc_'' @ key else label @ ''_'' @ key,
              xyz_rpy_from_T (if label = ''cTv'' then invert_T T else T))]"
    by (simp add: get_info_def get_info_entry_first [of _ label T "[]"])
next
  show "get_info [(''cam0'', \<lparr>extrinsics = Some [(''vTc'',
       [[1, 0, 0, 1], [0, 1, 0, 2], [0, 0, 1, 3], [0, 0, 0, 1]])]\<rparr>)] =
     Inr [(''vTc_cam0'',
       \<lparr>pose_x = 1, pose_y = 2, pose_z = 3, pose_roll = 0, pose_pitch = 0, pose_yaw = 0\<rparr>)]"
    by (rule get_info_vTc_cam0)
qed

text \<open>
  The amended claim at an input of two sensors around the key \<^verbatim>\<open>state\<close>: the first, under
  \<^verbatim>\<open>vTc\<close>, keeps its translation, and the second, under \<^verbatim>\<open>cTv\<close>, has it inverted.
\<close>

theorem get_info_direction_witness:
  "get_info
     [(''cam0'', \<lparr>extrinsics = Some [(''vTc'',
         [[1, 0, 0, 1], [0, 1, 0, 2], [0, 0, 1, 3], [0, 0, 0, 1]])]\<rparr>),
      (''state'', \<lparr>extrinsics = None\<rparr>),
      (''lidar'', \<lparr>extrinsics = Some [(''cTv'',
         [[1, 0, 0, 4], [0, 1, 0, 5], [0, 0, 1, 6], [0, 0, 0, 1]])]\<rparr>)] =
     Inr [(''vTc_cam0'',
            \<lparr>pose_x = 1, pose_y = 2, pose_z = 3, pose_roll = 0, pose_pitch = 0, pose_yaw = 0\<rparr>),
          (''vTc_lidar'',
            \<lparr>pose_x = - 4, pose_y = - 5, pose_z = - 6, pose_roll = 0, pose_pitch = 0,
              pose_yaw = 0\<rparr>)] \<and>
   map_of
     [(''vTc_cam0'',
        \<lparr>pose_x = 1, pose_y = 2, pose_z = 3, pose_roll = 0, pose_pitch = 0, pose_yaw = 0\<rparr>),
      (''vTc_lidar'',
        \<lparr>pose_x = - 4, pose_y = - 5, pose_z = - 6, pose_roll = 0, pose_pitch = 0,
          pose_yaw = 0\<rparr>)] ''vTc_lidar'' =
     Some (xyz_rpy_from_T (invert_T [[1, 0, 0, 4], [0, 1, 0, 5], [0, 0, 1, 6], [0, 0, 0, 1]]))"
proof -
  let ?A = "[[1, 0, 0, 1], [0, 1, 0, 2], [0, 0, 1, 3], [0, 0, 0, 1 :: real]]"
  let ?B = "[[1, 0, 0, 4], [0, 1, 0, 5], [0, 0, 1, 6], [0, 0, 0, 1 :: real]]"
  let ?cam = "(''cam0'', \<lparr>extrinsics = Some [(''vTc'', ?A)]\<rparr>)"
  let ?state = "(''state'', \<lparr>extrinsics = None\<rparr>)"
  let ?lidar = "(''lidar'', \<lparr>extrinsics = Some [(''cTv'', ?B)]\<rparr>)"
  let ?out = "[(''vTc_cam0'',
        \<lparr>pose_x = 1, pose_y = 2, pose_z = 3, pose_roll = 0, pose_pitch = 0, pose_yaw = 0\<rparr>),
      (''vTc_lidar'',
        \<lparr>pose_x = - 4, pose_y = - 5, pose_z = - 6, pose_roll = 0, pose_pitch = 0,
          pose_yaw = 0\<rparr>)]"
  have s: "is_4x4 ?B" by (simp add: is_shape_def)
  have A: "xyz_rpy_from_T ?A =
     \<lparr>pose_x = 1, pose_y = 2, pose_z = 3, pose_roll = 0, pose_pitch = 0, pose_yaw = 0\<rparr>"
    by (simp add: xyz_rpy_from_T_def rpy_from_R_def block33_def col3_def arctan2_def
        get_empty_dict_def)
  have B: "xyz_rpy_from_T (invert_T ?B) =
     \<lparr>pose_x = - 4, pose_y = - 5, pose_z = - 6, pose_roll = 0, pose_pitch = 0, pose_yaw = 0\<rparr>"
    by (simp add: invert_T_entries xyz_rpy_from_T_def rpy_from_R_def block33_def col3_def
        arctan2_def get_empty_dict_def)
  have "get_info ([?cam, ?state] @ ?lidar # []) =
      Inr [(''vTc_cam0'', xyz_rpy_from_T ?A), (''vTc_lidar'', xyz_rpy_from_T (invert_T ?B))]"
    by (simp add: get_info_def get_info_entry_def np_raises_def)
  then have run: "get_info ([?cam, ?state] @ ?lidar # []) = Inr ?out"
    by (simp only: A B)
  have lidar: "map_of ?out ''vTc_lidar'' = Some (xyz_rpy_from_T (invert_T ?B))"
    using get_info_direction [where key = "''lidar''" and T = ?B and label = "''cTv''"
        and before = "[?cam, ?state]" and after = "[]" and out = ?out] s run
    by simp
  from run lidar show ?thesis by simp
qed

subsection \<open>C2: the gimbal-lock branch\<close>

text \<open>
  Claim C2. For every 3x3 matrix \<open>R\<close> with \<open>sqrt (R[0,0]^2 + R[1,0]^2) \<le> 1e-6\<close> the
  decomposer returns \<open>roll = arctan2 (- R[1,2]) R[0,2]\<close>,
  \<open>pitch = arctan2 (- R[2,0]) cos_pitch\<close> and \<open>yaw = 0\<close>. For the rotation constructed
  from \<open>(roll, pi / 2, yaw)\<close> the returned yaw is \<open>0\<close>, the returned pitch is \<open>pi / 2\<close> and
  the returned roll is the combined angle \<open>roll - yaw\<close>, when that lies in the range of
  \<open>arctan2\<close>.
\<close>

theorem rpy_from_R_gimbal_lock:
  "(is_3x3 R \<and> sqrt ((R ! 0 ! 0)\<^sup>2 + (R ! 1 ! 0)\<^sup>2) \<le> 1 / 10 ^ 6 \<longrightarrow>
      rpy_from_R R =
        (arctan2 (- (R ! 1 ! 2)) (R ! 0 ! 2),
         arctan2 (- (R ! 2 ! 0)) (sqrt ((R ! 0 ! 0)\<^sup>2 + (R ! 1 ! 0)\<^sup>2)),
         0)) \<and>
   (- pi < roll - yaw \<and> roll - yaw \<le> pi \<longrightarrow>
      rpy_from_R (R_from_rpy roll (pi / 2) yaw) = (roll - yaw, pi / 2, 0))"
proof (intro conjI impI)
  assume "is_3x3 R \<and> sqrt ((R ! 0 ! 0)\<^sup>2 + (R ! 1 ! 0)\<^sup>2) \<le> 1 / 10 ^ 6"
  then have "\<not> sqrt ((R ! 0 ! 0)\<^sup>2 + (R ! 1 ! 0)\<^sup>2) > 1 / 10 ^ 6" by simp
  then show "rpy_from_R R =
        (arctan2 (- (R ! 1 ! 2)) (R ! 0 ! 2),
         arctan2 (- (R ! 2 ! 0)) (sqrt ((R ! 0 ! 0)\<^sup>2 + (R ! 1 ! 0)\<^sup>2)),
         0)"
    by (simp add: rpy_from_R_def Let_def)
next
  assume "- pi < roll - yaw \<and> roll - yaw \<le> pi"
  then show "rpy_from_R (R_from_rpy roll (pi / 2) yaw) = (roll - yaw, pi / 2, 0)"
    by (simp add: rpy_from_R_gimbal_plus)
qed

text \<open>
  Claim C2 at the quarter turn about Y, and at a constructed rotation with a roll of 90
  degrees and a yaw of 45 degrees.
\<close>

theorem rpy_from_R_gimbal_lock_witness:
  "is_3x3 [[0, 0, 1], [0, 1, 0], [- 1, 0, 0]] \<and>
   rpy_from_R [[0, 0, 1], [0, 1, 0], [- 1, 0, 0]] = (0, pi / 2, 0) \<and>
   rpy_from_R (R_from_rpy (pi / 2) (pi / 2) (pi / 4)) = (pi / 4, pi / 2, 0)"
  using rpy_from_R_gimbal_lock [of "[[0, 0, 1], [0, 1, 0], [- 1, 0, 0]]" "pi / 2" "pi / 4"]
  by (simp add: is_shape_def arctan2_def)

subsection \<open>C3: the regular branch\<close>

text \<open>
  Claim C3. For every 3x3 matrix \<open>R\<close>, with \<open>cos_pitch = sqrt (R[0,0]^2 + R[1,0]^2)\<close>:
  when \<open>cos_pitch > 1e-6\<close> the decomposer returns \<open>yaw = arctan2 R[2,1] R[2,2]\<close>,
  \<open>pitch = arctan2 (- R[2,0]) cos_pitch\<close> and \<open>roll = arctan2 R[1,0] R[0,0]\<close>, and when
  not, it returns the values of the other branch.
\<close>

theorem rpy_from_R_regular:
  assumes "is_3x3 R"
  shows "(sqrt ((R ! 0 ! 0)\<^sup>2 + (R ! 1 ! 0)\<^sup>2) > 1 / 10 ^ 6 \<longrightarrow>
            rpy_from_R R =
              (arctan2 (R ! 1 ! 0) (R ! 0 ! 0),
               arctan2 (- (R ! 2 ! 0)) (sqrt ((R ! 0 ! 0)\<^sup>2 + (R ! 1 ! 0)\<^sup>2)),
               arctan2 (R ! 2 ! 1) (R ! 2 ! 2))) \<and>
         (\<not> sqrt ((R ! 0 ! 0)\<^sup>2 + (R ! 1 ! 0)\<^sup>2) > 1 / 10 ^ 6 \<longrightarrow>
            rpy_from_R R =
              (arctan2 (- (R ! 1 ! 2)) (R ! 0 ! 2),
               arctan2 (- (R ! 2 ! 0)) (sqrt ((R ! 0 ! 0)\<^sup>2 + (R ! 1 ! 0)\<^sup>2)),
               0))"
  by (simp add: rpy_from_R_def Let_def)

text \<open>
  Claim C3 at the quarter turn about Z: the regular branch is taken and the quarter turn
  comes back as the roll.
\<close>

theorem rpy_from_R_regular_witness:
  "is_3x3 [[0, - 1, 0], [1, 0, 0], [0, 0, 1]] \<and>
   rpy_from_R [[0, - 1, 0], [1, 0, 0], [0, 0, 1]] = (pi / 2, 0, 0)"
  using rpy_from_R_regular [of "[[0, - 1, 0], [1, 0, 0], [0, 0, 1]]"]
  by (simp add: is_shape_def arctan2_def)

subsection \<open>C4: the inverse of a rigid transform\<close>

text \<open>
  Claim C4. For every valid rigid transform \<open>T\<close>, inverting twice gives \<open>T\<close> back, and
  the product of the inverse with \<open>T\<close> is the 4x4 identity. The equalities are exact, in
  real arithmetic.
\<close>

theorem invert_T_round_trip:
  assumes "rigid_transform T"
  shows "invert_T (invert_T T) = T \<and> matmul (invert_T T) T = eye 4"
proof -
  from assms have "is_4x4 T" by (simp add: rigid_transform_def)
  then obtain a b c d e f g h i j k l m n p q
    where T: "T = [[a, b, c, d], [e, f, g, h], [i, j, k, l], [m, n, p, q]]"
    by (rule is_4x4_cases)
  from assms have bottom: "m = 0" "n = 0" "p = 0" "q = 1"
    by (simp_all add: rigid_transform_def T)
  from assms have "orthonormal [[a, b, c], [e, f, g], [i, j, k]]"
    by (simp add: rigid_transform_def T block33_def)
  then have rows: "a * a + b * b + c * c = 1" "a * e + b * f + c * g = 0"
      "a * i + b * j + c * k = 0" "e * e + f * f + g * g = 1" "e * i + f * j + g * k = 0"
      "i * i + j * j + k * k = 1"
    and cols: "a * a + e * e + i * i = 1" "a * b + e * f + i * j = 0"
      "a * c + e * g + i * k = 0" "b * b + f * f + j * j = 1" "b * c + f * g + j * k = 0"
      "c * c + g * g + k * k = 1"
    by (simp_all add: orthonormal_entries)
  have d: "a * (a * d + e * h + i * l) + b * (b * d + f * h + j * l) + c * (c * d + g * h + k * l) = d"
    using rows by algebra
  have h: "e * (a * d + e * h + i * l) + f * (b * d + f * h + j * l) + g * (c * d + g * h + k * l) = h"
    using rows by algebra
  have l: "i * (a * d + e * h + i * l) + j * (b * d + f * h + j * l) + k * (c * d + g * h + k * l) = l"
    using rows by algebra
  have twice: "invert_T (invert_T T) = T"
    unfolding T invert_T_entries using d h l bottom by (simp add: algebra_simps)
  have once: "matmul (invert_T T) T = eye 4"
    using cols by (simp add: T bottom invert_T_entries matmul_4x4 eye_4 mult.commute)
  from twice once show ?thesis ..
qed

text \<open>
  Claim C4 at a quarter turn about Z with the translation \<open>(1, 2, 3)\<close>.
\<close>

theorem invert_T_round_trip_witness:
  "rigid_transform [[0, - 1, 0, 1], [1, 0, 0, 2], [0, 0, 1, 3], [0, 0, 0, 1]] \<and>
   invert_T [[0, - 1, 0, 1], [1, 0, 0, 2], [0, 0, 1, 3], [0, 0, 0, 1]] =
     [[0, 1, 0, - 2], [- 1, 0, 0, 1], [0, 0, 1, - 3], [0, 0, 0, 1]] \<and>
   invert_T [[0, 1, 0, - 2], [- 1, 0, 0, 1], [0, 0, 1, - 3], [0, 0, 0, 1]] =
     [[0, - 1, 0, 1], [1, 0, 0, 2], [0, 0, 1, 3], [0, 0, 0, 1]] \<and>
   matmul [[0, 1, 0, - 2], [- 1, 0, 0, 1], [0, 0, 1, - 3], [0, 0, 0, 1]]
          [[0, - 1, 0, 1], [1, 0, 0, 2], [0, 0, 1, 3], [0, 0, 0, 1]] = eye 4"
proof -
  have r: "rigid_transform [[0, - 1, 0, 1], [1, 0, 0, 2], [0, 0, 1, 3], [0, 0, 0, 1]]"
    by (simp add: rigid_transform_def is_shape_def block33_def orthonormal_entries det3_def)
  have i: "invert_T [[0, - 1, 0, 1], [1, 0, 0, 2], [0, 0, 1, 3], [0, 0, 0, 1]] =
     [[0, 1, 0, - 2], [- 1, 0, 0, 1], [0, 0, 1, - 3], [0, 0, 0, 1]]"
    by (simp add: invert_T_entries)
  show ?thesis
    using r i invert_T_round_trip [OF r] by simp
qed

subsection \<open>C5: decomposing a constructed rotation, regular case\<close>

text \<open>
  Claim C5 asks that decomposing the rotation constructed from \<open>(roll, pitch, yaw)\<close>
  returns the same triple. The script does not: its regular branch returns the angle about
  Z as roll and the angle about X as yaw (lemma \<open>rpy_from_R_regular_swapped\<close>), while its
  gimbal-lock branch sets the angle about Z to zero under the name yaw. At
  \<open>(roll, pitch, yaw) = (0, 0, pi / 2)\<close>, a quarter turn about Z, the script returns
  \<open>(pi / 2, 0, 0)\<close>.
\<close>

theorem rpy_from_R_swaps_roll_and_yaw:
  "R_from_rpy 0 0 (pi / 2) = [[0, - 1, 0], [1, 0, 0], [0, 0, 1]] \<and>
   rpy_from_R [[0, - 1, 0], [1, 0, 0], [0, 0, 1]] = (pi / 2, 0, 0) \<and>
   rpy_from_R (R_from_rpy 0 0 (pi / 2)) \<noteq> (0, 0, pi / 2)"
proof -
  have R: "R_from_rpy 0 0 (pi / 2) = [[0, - 1, 0], [1, 0, 0], [0, 0, 1]]"
    by (simp add: R_from_rpy_entries)
  have "rpy_from_R (R_from_rpy 0 0 (pi / 2)) = (pi / 2, 0, 0)"
    by (rule rpy_from_R_regular_swapped) (simp_all add: field_simps)
  then show ?thesis by (simp add: R)
qed

subsection \<open>C6: the reserved key\<close>

text \<open>
  Claim C6. For every input whose keys are distinct and whose entries, the one under
  \<^verbatim>\<open>state\<close> apart, are valid sensor entries, the run succeeds and the output has exactly
  one record for every key other than \<^verbatim>\<open>state\<close>, named \<^verbatim>\<open>vTc_<key>\<close>, in the order of
  the input, and none for \<^verbatim>\<open>state\<close>.
\<close>

theorem get_info_skips_state:
  assumes "distinct (map fst items)"
    and "list_all (\<lambda>(k, e). k = ''state'' \<or> valid_sensor_entry e) items"
  shows "\<exists>out. get_info items = Inr out \<and>
           map fst out = map ((@) ''vTc_'') (filter (\<lambda>k. k \<noteq> ''state'') (map fst items)) \<and>
           distinct (map fst out) \<and>
           length out = length (filter (\<lambda>k. k \<noteq> ''state'') (map fst items))"
proof -
  let ?keys = "filter (\<lambda>k. k \<noteq> ''state'') (map fst items)"
  have entries: "\<exists>data. get_info_entry k e = Inr (''vTc_'' @ k, data)"
    if "(k, e) \<in> set items" "k \<noteq> ''state''" for k e
  proof -
    from assms(2) that have "valid_sensor_entry e"
      by (auto simp: list_all_iff)
    then show ?thesis by (rule get_info_entry_valid)
  qed
  have "\<exists>out. get_info_loop items [] = Inr out \<and>
           map fst out = map fst ([] :: report) @ map ((@) ''vTc_'') ?keys"
    by (rule get_info_loop_names [OF assms(1)]) (use entries in \<open>simp_all add: inj_on_def\<close>)
  then obtain out where out: "get_info_loop items [] = Inr out"
    and names: "map fst out = map ((@) ''vTc_'') ?keys"
    by auto
  have "distinct ?keys" using assms(1) by (rule distinct_filter)
  then have "distinct (map ((@) ''vTc_'') ?keys)"
    by (simp add: distinct_map inj_on_def)
  then have dist: "distinct (map fst out)"
    by (simp only: names)
  have "length (map fst out) = length (map ((@) ''vTc_'') ?keys)"
    by (simp only: names)
  then have len: "length out = length ?keys"
    by (simp only: length_map)
  show ?thesis
    unfolding get_info_def using out names dist len by blast
qed

text \<open>
  Claim C6 at an input with \<^verbatim>\<open>state\<close> and two sensors: two records.
\<close>

theorem get_info_skips_state_witness:
  "\<exists>out. get_info
      [(''state'', \<lparr>extrinsics = None\<rparr>),
       (''cam0'', \<lparr>extrinsics = Some [(''vTc'',
          [[1, 0, 0, 1], [0, 1, 0, 2], [0, 0, 1, 3], [0, 0, 0, 1]])]\<rparr>),
       (''lidar'', \<lparr>extrinsics = Some [(''cTv'',
          [[0, - 1, 0, 1], [1, 0, 0, 2], [0, 0, 1, 3], [0, 0, 0, 1]])]\<rparr>)] = Inr out \<and>
     map fst out = [''vTc_cam0'', ''vTc_lidar''] \<and> length out = 2"
proof -
  let ?items = "[(''state'', \<lparr>extrinsics = None\<rparr>),
       (''cam0'', \<lparr>extrinsics = Some [(''vTc'',
          [[1, 0, 0, 1], [0, 1, 0, 2], [0, 0, 1, 3], [0, 0, 0, 1 :: real]])]\<rparr>),
       (''lidar'', \<lparr>extrinsics = Some [(''cTv'',
          [[0, - 1, 0, 1], [1, 0, 0, 2], [0, 0, 1, 3], [0, 0, 0, 1]])]\<rparr>)]"
  have d: "distinct (map fst ?items)" by simp
  have v: "list_all (\<lambda>(k, e). k = ''state'' \<or> valid_sensor_entry e) ?items"
    by (simp add: valid_sensor_entry_def is_shape_def)
  show ?thesis
    using get_info_skips_state [OF d v] by auto
qed

text \<open>
  The hypothesis on the labels is needed. A label is joined to its key by an underscore,
  so with labels outside the two direction codes two keys can derive one record name; the
  later pose then replaces the earlier one, and two sensors leave a single record.
\<close>

lemma get_info_name_collision:
  "get_info
      [(''state'', \<lparr>extrinsics = None\<rparr>),
       (''b_c'', \<lparr>extrinsics = Some [(''a'',
          [[1, 0, 0, 1], [0, 1, 0, 2], [0, 0, 1, 3], [0, 0, 0, 1]])]\<rparr>),
       (''c'', \<lparr>extrinsics = Some [(''a_b'',
          [[1, 0, 0, 4], [0, 1, 0, 5], [0, 0, 1, 6], [0, 0, 0, 1]])]\<rparr>)] =
     Inr [(''a_b_c'',
       \<lparr>pose_x = 4, pose_y = 5, pose_z = 6, pose_roll = 0, pose_pitch = 0, pose_yaw = 0\<rparr>)]"
  by (simp add: get_info_def get_info_entry_def np_raises_def xyz_rpy_from_T_def rpy_from_R_def
      block33_def col3_def arctan2_def get_empty_dict_def)

subsection \<open>C7: the identity transform\<close>

text \<open>
  Claim C7. Decomposing the 4x4 identity gives the pose with all six fields \<open>0\<close>.
\<close>

theorem xyz_rpy_from_T_identity:
  "xyz_rpy_from_T (eye 4) =
     \<lparr>pose_x = 0, pose_y = 0, pose_z = 0, pose_roll = 0, pose_pitch = 0, pose_yaw = 0\<rparr>"
  by (simp add: xyz_rpy_from_T_def rpy_from_R_def eye_4 block33_def col3_def arctan2_def
      get_empty_dict_def)

subsection \<open>C8: the first label decides\<close>



subsection \<open>C9: the range of the pitch\<close>

text \<open>
  Claim C9. For every 3x3 matrix the returned pitch lies between \<open>- pi / 2\<close> and
  \<open>pi / 2\<close>, in either branch.
\<close>

theorem rpy_from_R_pitch_range:
  assumes "is_3x3 R"
  shows "- (pi / 2) \<le> fst (snd (rpy_from_R R)) \<and> fst (snd (rpy_from_R R)) \<le> pi / 2"
proof -
  let ?c = "sqrt ((R ! 0 ! 0)\<^sup>2 + (R ! 1 ! 0)\<^sup>2)"
  have "0 \<le> ?c" by simp
  then have "- (pi / 2) \<le> arctan2 (- (R ! 2 ! 0)) ?c \<and> arctan2 (- (R ! 2 ! 0)) ?c \<le> pi / 2"
    by (rule arctan2_range_nonneg)
  moreover have "fst (snd (rpy_from_R R)) = arctan2 (- (R ! 2 ! 0)) ?c"
    by (simp add: rpy_from_R_def Let_def)
  ultimately show ?thesis by simp
qed

text \<open>
  Claim C9 at the quarter turn about Y, where the pitch is the upper bound itself.
\<close>

theorem rpy_from_R_pitch_range_witness:
  "is_3x3 [[0, 0, 1], [0, 1, 0], [- 1, 0, 0]] \<and>
   - (pi / 2) \<le> fst (snd (rpy_from_R [[0, 0, 1], [0, 1, 0], [- 1, 0, 0]])) \<and>
   fst (snd (rpy_from_R [[0, 0, 1], [0, 1, 0], [- 1, 0, 0]])) \<le> pi / 2"
proof -
  have s: "is_3x3 [[0, 0, 1], [0, 1, 0], [- 1, 0, 0]]" by (simp add: is_shape_def)
  show ?thesis using s rpy_from_R_pitch_range [OF s] by simp
qed

subsection \<open>C10: what invert\_T writes\<close>



end
